theory Spec2Isabelle
  imports Main "HOL-Library.Word"
begin

section \<open>Session negotiation and manager construction of the Slack RTM client (rtm.go)\<close>

text \<open>
  The file \<^verbatim>\<open>vendor/github.com/essentialkaos/slack/rtm.go\<close> holds the two negotiation
  calls (\<^verbatim>\<open>StartRTM\<close>/\<^verbatim>\<open>StartRTMContext\<close>, \<^verbatim>\<open>ConnectRTM\<close>/\<^verbatim>\<open>ConnectRTMContext\<close>) and the
  constructors of the connection manager (\<^verbatim>\<open>NewRTM\<close>, \<^verbatim>\<open>NewRTMWithOptions\<close>). The
  declarations of \<^verbatim>\<open>Client\<close>, \<^verbatim>\<open>Info\<close>, \<^verbatim>\<open>infoResponseFull\<close>, \<^verbatim>\<open>RTM\<close>, \<^verbatim>\<open>RTMOptions\<close> and
  the helpers \<^verbatim>\<open>post\<close>, \<^verbatim>\<open>toParams\<close>, \<^verbatim>\<open>Debugln\<close>, \<^verbatim>\<open>Debugf\<close>, \<^verbatim>\<open>NewSafeID\<close> live in other
  files of the package. Records below carry exactly the fields rtm.go reads or writes;
  \<^verbatim>\<open>post\<close> and \<^verbatim>\<open>toParams\<close> are parameters of the model.
\<close>

subsection \<open>Go's \<^verbatim>\<open>time\<close>, \<^verbatim>\<open>context\<close> and \<^verbatim>\<open>fmt\<close>, as far as rtm.go uses them\<close>

text \<open>\<^verbatim>\<open>time.Duration\<close> is an \<^verbatim>\<open>int64\<close> count of nanoseconds; \<open>sint\<close> reads it.\<close>

type_synonym Duration = "64 word"

definition Nanosecond :: Duration where
  "Nanosecond = 1"

definition Microsecond :: Duration where
  "Microsecond = 1000 * Nanosecond"

definition Millisecond :: Duration where
  "Millisecond = 1000 * Microsecond"

definition Second :: Duration where
  "Second = 1000 * Millisecond"

text \<open>\<^verbatim>\<open>const ( WEBSOCKET_DEFAULT_TIMEOUT = 10 * time.Second )\<close>\<close>

definition WEBSOCKET_DEFAULT_TIMEOUT :: Duration where
  "WEBSOCKET_DEFAULT_TIMEOUT = 10 * Second"

text \<open>
  A \<^verbatim>\<open>context.Context\<close> is described by how it was built: rtm.go builds contexts only
  with \<^verbatim>\<open>context.Background()\<close> and \<^verbatim>\<open>context.WithTimeout(parent, d)\<close>.
\<close>

datatype Context = Background | WithTimeout Context Duration

text \<open>The timeout a context was given at its outermost \<^verbatim>\<open>WithTimeout\<close>, in nanoseconds.\<close>

fun timeout_ns :: "Context \<Rightarrow> int option" where
  "timeout_ns Background = None"
| "timeout_ns (WithTimeout parent d) = Some (sint d)"

text \<open>
  \<^verbatim>\<open>fmt.Sprintf\<close> restricted to the verb \<^verbatim>\<open>%s\<close> on string operands (the only verb in
  rtm.go); a verb without operand prints \<^verbatim>\<open>%!s(MISSING)\<close>.
\<close>

fun Sprintf :: "string \<Rightarrow> string list \<Rightarrow> string" where
  "Sprintf [] args = []"
| "Sprintf [c] args = [c]"
| "Sprintf (c # d # fs) args =
     (if c = CHR ''%'' \<and> d = CHR ''s''
      then (case args of
              [] \<Rightarrow> ''%!s(MISSING)'' @ Sprintf fs []
            | a # rest \<Rightarrow> a @ Sprintf fs rest)
      else c # Sprintf (d # fs) args)"

text \<open>
  A value of Go's \<^verbatim>\<open>error\<close> interface, as rtm.go can return it: the string error built
  by \<^verbatim>\<open>fmt.Errorf\<close>, or the \<^verbatim>\<open>Error\<close> field of the response handed back as it is. The
  type of that field is declared outside rtm.go, hence the parameter \<open>'e\<close>.
\<close>

datatype 'e error = errorString string | responseError 'e

definition Errorf :: "string \<Rightarrow> string list \<Rightarrow> 'e error" where
  "Errorf format args = errorString (Sprintf format args)"

subsection \<open>Client, response and the result of a negotiation call\<close>

record 'c Client =
  Config :: 'c
  debug :: bool

record Info =
  URL :: string

text \<open>
  \<^verbatim>\<open>infoResponseFull\<close>: the embedded \<^verbatim>\<open>Info\<close> and the \<^verbatim>\<open>Ok\<close>/\<^verbatim>\<open>Error\<close> pair of the web
  response. \<open>'i\<close> stands for the fields of \<^verbatim>\<open>Info\<close> other than \<^verbatim>\<open>URL\<close>.
\<close>

record ('i, 'e) infoResponseFull =
  Info :: "'i Info_scheme"
  Ok :: bool
  Error :: 'e

text \<open>
  Modelled from the spec: logging is an external collaborator (section 1, "any
  CLI/config/logging concerns"), so the absent helpers \<^verbatim>\<open>api.Debugln\<close> and \<^verbatim>\<open>api.Debugf\<close>
  are not interpreted; each call is recorded with its operands, in program order.
\<close>

datatype log_call = Debugln "string list" | Debugf string "string list"

text \<open>
  What a negotiation call leaves behind: the client its receiver \<^verbatim>\<open>api\<close> points to, the
  logging calls it made, and the three values it returns (\<open>None\<close> is \<^verbatim>\<open>nil\<close>).
\<close>

record ('c, 'i, 'e) negotiated =
  receiver :: "'c Client"
  trace :: "log_call list"
  info :: "'i Info_scheme option"
  websocketURL :: string
  err :: "'e error option"

text \<open>
  \<^verbatim>\<open>post(ctx, path, values, intf, debug) error\<close> is the request/response call. rtm.go hands
  it a fresh zero \<^verbatim>\<open>&infoResponseFull{}\<close> each time, so the model's \<open>post\<close> returns what
  the call left in that struct together with its error (\<open>None\<close> is \<^verbatim>\<open>nil\<close>, \<open>Some m\<close> an
  error whose \<^verbatim>\<open>Error()\<close> text is \<open>m\<close>: rtm.go only formats it with \<^verbatim>\<open>%s\<close>).
\<close>

type_synonym ('p, 'i, 'e) post =
  "Context \<Rightarrow> string \<Rightarrow> 'p \<Rightarrow> bool \<Rightarrow> ('i, 'e) infoResponseFull \<times> string option"

definition StartRTMContext ::
  "('p, 'i, 'e) post \<Rightarrow> ('c \<Rightarrow> 'p) \<Rightarrow> 'c Client \<Rightarrow> Context \<Rightarrow> ('c, 'i, 'e) negotiated" where
  "StartRTMContext post toParams api ctx =
     (case post ctx ''rtm.start'' (toParams (Config api)) (debug api) of
        (response, Some e) \<Rightarrow>
          \<lparr>receiver = api, trace = [],
           info = None, websocketURL = [], err = Some (Errorf ''post: %s'' [e])\<rparr>
      | (response, None) \<Rightarrow>
          if \<not> Ok response then
            \<lparr>receiver = api, trace = [],
             info = None, websocketURL = [], err = Some (responseError (Error response))\<rparr>
          else
            \<lparr>receiver = api, trace = [Debugln [''Using URL:'', URL (Info response)]],
             info = Some (Info response), websocketURL = URL (Info response), err = None\<rparr>)"

definition ConnectRTMContext ::
  "('p, 'i, 'e) post \<Rightarrow> ('c \<Rightarrow> 'p) \<Rightarrow> 'c Client \<Rightarrow> Context \<Rightarrow> ('c, 'i, 'e) negotiated" where
  "ConnectRTMContext post toParams api ctx =
     (case post ctx ''rtm.connect'' (toParams (Config api)) (debug api) of
        (response, Some e) \<Rightarrow>
          \<lparr>receiver = api, trace = [Debugf ''Failed to connect to RTM: %s'' [e]],
           info = None, websocketURL = [], err = Some (Errorf ''post: %s'' [e])\<rparr>
      | (response, None) \<Rightarrow>
          if \<not> Ok response then
            \<lparr>receiver = api, trace = [],
             info = None, websocketURL = [], err = Some (responseError (Error response))\<rparr>
          else
            \<lparr>receiver = api, trace = [Debugln [''Using URL:'', URL (Info response)]],
             info = Some (Info response), websocketURL = URL (Info response), err = None\<rparr>)"

text \<open>
  The entry points without a context build one with \<^verbatim>\<open>context.WithTimeout\<close>; the
  deferred \<^verbatim>\<open>cancel()\<close> runs after the results are fixed and touches only that context.
\<close>

definition StartRTM ::
  "('p, 'i, 'e) post \<Rightarrow> ('c \<Rightarrow> 'p) \<Rightarrow> 'c Client \<Rightarrow> ('c, 'i, 'e) negotiated" where
  "StartRTM post toParams api =
     (let ctx = WithTimeout Background WEBSOCKET_DEFAULT_TIMEOUT
      in StartRTMContext post toParams api ctx)"

definition ConnectRTM ::
  "('p, 'i, 'e) post \<Rightarrow> ('c \<Rightarrow> 'p) \<Rightarrow> 'c Client \<Rightarrow> ('c, 'i, 'e) negotiated" where
  "ConnectRTM post toParams api =
     (let ctx = WithTimeout Background WEBSOCKET_DEFAULT_TIMEOUT
      in ConnectRTMContext post toParams api ctx)"

subsection \<open>The connection manager and its constructors\<close>

text \<open>A Go channel: \<^verbatim>\<open>make(chan T, n)\<close> is open, empty and buffers \<open>n\<close> values.\<close>

record 'a chan =
  capacity :: nat
  buffer :: "'a list"
  isClosed :: bool

definition make_chan :: "nat \<Rightarrow> 'a chan" where
  "make_chan n = \<lparr>capacity = n, buffer = [], isClosed = False\<rparr>"

text \<open>Payload types declared outside rtm.go; the constructors never build a value of them.\<close>

typedecl RTMEvent
typedecl OutgoingMessage

text \<open>\<^verbatim>\<open>json.RawMessage\<close> is a byte slice; \<^verbatim>\<open>time.Time\<close> is kept as a nanosecond count.\<close>

type_synonym RawMessage = "8 word list"
type_synonym Time = int

datatype Mutex = Unlocked | Locked

text \<open>
  Modelled from the spec: \<^verbatim>\<open>NewSafeID\<close> and the generator's \<^verbatim>\<open>Next\<close> are not in rtm.go.
  Section 4.2: "\<^verbatim>\<open>next() \<rightarrow> integer\<close>, strictly increasing, starts at a configurable seed";
  the generator is a counter that hands out its current value and steps by one, over
  unbounded integers ("grows unboundedly").
\<close>

record safeID =
  nextID :: int

definition NewSafeID :: "int \<Rightarrow> safeID" where
  "NewSafeID startID = \<lparr>nextID = startID\<rparr>"

definition Next :: "safeID \<Rightarrow> int \<times> safeID" where
  "Next s = (nextID s, s\<lparr>nextID := nextID s + 1\<rparr>)"

text \<open>The identifiers of \<open>n\<close> successive calls of \<open>Next\<close>, and the generator afterwards.\<close>

fun Nexts :: "nat \<Rightarrow> safeID \<Rightarrow> int list \<times> safeID" where
  "Nexts 0 s = ([], s)"
| "Nexts (Suc n) s =
     (case Next s of (i, s') \<Rightarrow> (case Nexts n s' of (is, s'') \<Rightarrow> (i # is, s'')))"

record RTMOptions =
  UseRTMStart :: bool

text \<open>
  \<^verbatim>\<open>RTM\<close>, with the fields the composite literal of \<^verbatim>\<open>NewRTMWithOptions\<close> names and the
  field \<^verbatim>\<open>useRTMStart\<close> it assigns afterwards. The manager holds a copy of the client
  (\<^verbatim>\<open>Client: *api\<close>).
\<close>

record 'c RTM =
  Client :: "'c Client"
  IncomingEvents :: "RTMEvent chan"
  outgoingMessages :: "OutgoingMessage chan"
  pings :: "int \<rightharpoonup> Time"
  isConnected :: bool
  wasIntentional :: bool
  killChannel :: "bool chan"
  disconnected :: "unit chan"
  forcePing :: "bool chan"
  rawEvents :: "RawMessage chan"
  idGen :: safeID
  mu :: Mutex
  useRTMStart :: bool

text \<open>
  The literal leaves \<^verbatim>\<open>useRTMStart\<close> at its zero value \<open>False\<close>; the guard
  \<^verbatim>\<open>options != nil && options.UseRTMStart\<close> reads the field only of a non-nil pointer.
\<close>

definition NewRTMWithOptions :: "'c Client \<Rightarrow> RTMOptions option \<Rightarrow> 'c RTM" where
  "NewRTMWithOptions api options =
     (let result =
        \<lparr>Client = api,
         IncomingEvents = make_chan 50,
         outgoingMessages = make_chan 20,
         pings = Map.empty,
         isConnected = False,
         wasIntentional = True,
         killChannel = make_chan 0,
         disconnected = make_chan 0,
         forcePing = make_chan 0,
         rawEvents = make_chan 0,
         idGen = NewSafeID 1,
         mu = Unlocked,
         useRTMStart = False\<rparr>
      in (case options of
            None \<Rightarrow> result
          | Some opts \<Rightarrow> if UseRTMStart opts then result\<lparr>useRTMStart := True\<rparr> else result))"

definition NewRTM :: "'c Client \<Rightarrow> 'c RTM" where
  "NewRTM api = NewRTMWithOptions api None"

subsection \<open>Example inputs\<close>

text \<open>
  A client with a token as its configuration, a \<^verbatim>\<open>toParams\<close> that sends the token, and
  three servers: one that rejects every request, one that answers the two negotiation
  endpoints, and a network that fails.
\<close>

definition example_api :: "string Client" where
  "example_api = \<lparr>Config = ''xoxb-test'', debug = True\<rparr>"

definition example_toParams :: "string \<Rightarrow> (string \<times> string) list" where
  "example_toParams token = [(''token'', token)]"

definition zero_response :: "(unit, string) infoResponseFull" where
  "zero_response = \<lparr>Info = \<lparr>URL = []\<rparr>, Ok = False, Error = []\<rparr>"

definition post_rejecting :: "((string \<times> string) list, unit, string) post" where
  "post_rejecting ctx path values dbg = (zero_response\<lparr>Error := ''invalid_auth''\<rparr>, None)"

definition post_accepting :: "((string \<times> string) list, unit, string) post" where
  "post_accepting ctx path values dbg =
     (if path = ''rtm.start''
      then (zero_response\<lparr>Info := \<lparr>URL = ''wss://example.test/full''\<rparr>, Ok := True\<rparr>, None)
      else if path = ''rtm.connect''
      then (zero_response\<lparr>Info := \<lparr>URL = ''wss://example.test/compact''\<rparr>, Ok := True\<rparr>, None)
      else (zero_response, Some ''unknown method''))"

definition post_failing :: "((string \<times> string) list, unit, string) post" where
  "post_failing ctx path values dbg = (zero_response, Some ''i/o timeout'')"

section \<open>Properties\<close>

subsection \<open>Helper facts\<close>

lemma Sprintf_post: "Sprintf ''post: %s'' [m] = ''post: '' @ m"
  by simp

lemma WEBSOCKET_DEFAULT_TIMEOUT_ns: "sint WEBSOCKET_DEFAULT_TIMEOUT = 10000000000"
  by (simp add: WEBSOCKET_DEFAULT_TIMEOUT_def Second_def Millisecond_def Microsecond_def
      Nanosecond_def)

lemma Second_ns: "sint Second = 1000000000"
  by (simp add: Second_def Millisecond_def Microsecond_def Nanosecond_def)

lemma NewRTMWithOptions_fields:
  "Client (NewRTMWithOptions api options) = api"
  "IncomingEvents (NewRTMWithOptions api options) = make_chan 50"
  "outgoingMessages (NewRTMWithOptions api options) = make_chan 20"
  "pings (NewRTMWithOptions api options) = Map.empty"
  "isConnected (NewRTMWithOptions api options) = False"
  "wasIntentional (NewRTMWithOptions api options) = True"
  "idGen (NewRTMWithOptions api options) = NewSafeID 1"
  "mu (NewRTMWithOptions api options) = Unlocked"
  by (simp_all add: NewRTMWithOptions_def Let_def split: option.split)

lemma Nexts_ids: "fst (Nexts n s) = map (\<lambda>k. nextID s + int k) [0..<n]"
proof (induction n arbitrary: s)
  case 0
  show ?case by simp
next
  case (Suc n)
  have "fst (Nexts (Suc n) s) = nextID s # fst (Nexts n (s\<lparr>nextID := nextID s + 1\<rparr>))"
    by (simp add: Next_def split: prod.split)
  also have "\<dots> = nextID s # map (\<lambda>k. nextID s + 1 + int k) [0..<n]"
    by (simp add: Suc.IH)
  also have "\<dots> = map (\<lambda>k. nextID s + int k) [0..<Suc n]"
    by (simp add: upt_conv_Cons map_Suc_upt [symmetric] del: upt_Suc)
  finally show ?case .
qed

lemma Nexts_increasing: "sorted_wrt (<) (fst (Nexts n s))"
  by (simp add: Nexts_ids sorted_wrt_map)

lemma map_int_from_1: "map (\<lambda>k. 1 + int k) [0..<n] = map int [1..<Suc n]"
  by (induction n) simp_all

lemma Nexts_from_1: "fst (Nexts n (NewSafeID 1)) = map int [1..<Suc n]"
  using Nexts_ids [of n "NewSafeID 1"]
  by (simp only: NewSafeID_def safeID.simps map_int_from_1)

subsection \<open>Negotiation\<close>

text \<open>
  C1. When the request/response call itself succeeds and the response it delivers has
  \<^verbatim>\<open>ok\<close> false, \<^verbatim>\<open>StartRTMContext\<close> and \<^verbatim>\<open>ConnectRTMContext\<close> return a nil Info, the empty
  websocket URL, and as error the \<^verbatim>\<open>Error\<close> value of the response itself: it is not
  turned into the string error that a transport failure gets. (A failed call delivers
  no negotiation response; that case is C4.)
\<close>

theorem rejected_negotiation_returns_response_error:
  "(post ctx ''rtm.start'' (toParams (Config api)) (debug api) = (response, None) \<and>
    \<not> Ok response \<longrightarrow>
      info (StartRTMContext post toParams api ctx) = None \<and>
      websocketURL (StartRTMContext post toParams api ctx) = [] \<and>
      err (StartRTMContext post toParams api ctx) = Some (responseError (Error response))) \<and>
   (post ctx ''rtm.connect'' (toParams (Config api)) (debug api) = (response', None) \<and>
    \<not> Ok response' \<longrightarrow>
      info (ConnectRTMContext post toParams api ctx) = None \<and>
      websocketURL (ConnectRTMContext post toParams api ctx) = [] \<and>
      err (ConnectRTMContext post toParams api ctx) = Some (responseError (Error response')))"
  by (simp add: StartRTMContext_def ConnectRTMContext_def)

theorem rejected_negotiation_witness:
  "info (StartRTMContext post_rejecting example_toParams example_api Background) = None \<and>
   websocketURL (StartRTMContext post_rejecting example_toParams example_api Background) = [] \<and>
   err (StartRTMContext post_rejecting example_toParams example_api Background)
     = Some (responseError ''invalid_auth'') \<and>
   info (ConnectRTMContext post_rejecting example_toParams example_api Background) = None \<and>
   websocketURL (ConnectRTMContext post_rejecting example_toParams example_api Background) = [] \<and>
   err (ConnectRTMContext post_rejecting example_toParams example_api Background)
     = Some (responseError ''invalid_auth'')"
  using rejected_negotiation_returns_response_error
    [where post = post_rejecting and toParams = example_toParams
      and api = example_api and ctx = Background
      and response = "zero_response\<lparr>Error := ''invalid_auth''\<rparr>"
      and response' = "zero_response\<lparr>Error := ''invalid_auth''\<rparr>"]
  by (simp add: post_rejecting_def zero_response_def)

text \<open>
  C2. \<^verbatim>\<open>StartRTM\<close> and \<^verbatim>\<open>ConnectRTM\<close> are their context-taking variants run under
  \<^verbatim>\<open>context.WithTimeout(context.Background(), WEBSOCKET_DEFAULT_TIMEOUT)\<close>, and that
  timeout is exactly 10 seconds: 10 000 000 000 ns, with a second being 1 000 000 000 ns
  (the product does not overflow \<^verbatim>\<open>int64\<close>).
\<close>

theorem no_context_entry_points_use_ten_second_timeout:
  "StartRTM post toParams api =
     StartRTMContext post toParams api (WithTimeout Background WEBSOCKET_DEFAULT_TIMEOUT) \<and>
   ConnectRTM post toParams api =
     ConnectRTMContext post toParams api (WithTimeout Background WEBSOCKET_DEFAULT_TIMEOUT) \<and>
   timeout_ns (WithTimeout Background WEBSOCKET_DEFAULT_TIMEOUT) = Some (10 * 1000000000) \<and>
   sint WEBSOCKET_DEFAULT_TIMEOUT = 10 * sint Second \<and>
   sint Second = 1000000000"
  by (simp add: StartRTM_def ConnectRTM_def WEBSOCKET_DEFAULT_TIMEOUT_ns Second_ns)

text \<open>
  C3. When the call to the endpoint \<^verbatim>\<open>rtm.start\<close> (for \<^verbatim>\<open>StartRTMContext\<close>) or
  \<^verbatim>\<open>rtm.connect\<close> (for \<^verbatim>\<open>ConnectRTMContext\<close>) succeeds with \<^verbatim>\<open>ok\<close> true, the function
  returns the Info of the response (not nil), the \<^verbatim>\<open>URL\<close> field of that Info unchanged as
  websocket URL, and a nil error.
\<close>

theorem successful_negotiation_returns_info_and_its_url:
  "(post ctx ''rtm.start'' (toParams (Config api)) (debug api) = (response, None) \<and>
    Ok response \<longrightarrow>
      info (StartRTMContext post toParams api ctx) = Some (Info response) \<and>
      websocketURL (StartRTMContext post toParams api ctx) = URL (Info response) \<and>
      err (StartRTMContext post toParams api ctx) = None) \<and>
   (post ctx ''rtm.connect'' (toParams (Config api)) (debug api) = (response', None) \<and>
    Ok response' \<longrightarrow>
      info (ConnectRTMContext post toParams api ctx) = Some (Info response') \<and>
      websocketURL (ConnectRTMContext post toParams api ctx) = URL (Info response') \<and>
      err (ConnectRTMContext post toParams api ctx) = None)"
  by (simp add: StartRTMContext_def ConnectRTMContext_def)

theorem successful_negotiation_witness:
  "info (StartRTMContext post_accepting example_toParams example_api Background)
     = Some \<lparr>URL = ''wss://example.test/full''\<rparr> \<and>
   websocketURL (StartRTMContext post_accepting example_toParams example_api Background)
     = ''wss://example.test/full'' \<and>
   err (StartRTMContext post_accepting example_toParams example_api Background) = None \<and>
   info (ConnectRTMContext post_accepting example_toParams example_api Background)
     = Some \<lparr>URL = ''wss://example.test/compact''\<rparr> \<and>
   websocketURL (ConnectRTMContext post_accepting example_toParams example_api Background)
     = ''wss://example.test/compact'' \<and>
   err (ConnectRTMContext post_accepting example_toParams example_api Background) = None"
  using successful_negotiation_returns_info_and_its_url
    [where post = post_accepting and toParams = example_toParams
      and api = example_api and ctx = Background
      and response =
        "zero_response\<lparr>Info := \<lparr>URL = ''wss://example.test/full''\<rparr>, Ok := True\<rparr>"
      and response' =
        "zero_response\<lparr>Info := \<lparr>URL = ''wss://example.test/compact''\<rparr>, Ok := True\<rparr>"]
  by (simp add: post_accepting_def zero_response_def)

text \<open>
  C4. When the request/response call returns an error with text \<open>e\<close>, both functions
  return a nil Info, the empty websocket URL and a non-nil error whose text is
  \<^verbatim>\<open>post: \<close> followed by \<open>e\<close>; that error is never the \<^verbatim>\<open>Error\<close> value of a response, so
  a transport failure can be told from an application-level rejection.
\<close>

theorem failed_post_returns_prefixed_error:
  "(post ctx ''rtm.start'' (toParams (Config api)) (debug api) = (response, Some e) \<longrightarrow>
      info (StartRTMContext post toParams api ctx) = None \<and>
      websocketURL (StartRTMContext post toParams api ctx) = [] \<and>
      err (StartRTMContext post toParams api ctx) = Some (errorString (''post: '' @ e)) \<and>
      err (StartRTMContext post toParams api ctx) \<noteq> Some (responseError x)) \<and>
   (post ctx ''rtm.connect'' (toParams (Config api)) (debug api) = (response', Some e') \<longrightarrow>
      info (ConnectRTMContext post toParams api ctx) = None \<and>
      websocketURL (ConnectRTMContext post toParams api ctx) = [] \<and>
      err (ConnectRTMContext post toParams api ctx) = Some (errorString (''post: '' @ e')) \<and>
      err (ConnectRTMContext post toParams api ctx) \<noteq> Some (responseError x'))"
  by (simp add: StartRTMContext_def ConnectRTMContext_def Errorf_def)

theorem failed_post_witness:
  "info (StartRTMContext post_failing example_toParams example_api Background) = None \<and>
   websocketURL (StartRTMContext post_failing example_toParams example_api Background) = [] \<and>
   err (StartRTMContext post_failing example_toParams example_api Background)
     = Some (errorString ''post: i/o timeout'') \<and>
   info (ConnectRTMContext post_failing example_toParams example_api Background) = None \<and>
   websocketURL (ConnectRTMContext post_failing example_toParams example_api Background) = [] \<and>
   err (ConnectRTMContext post_failing example_toParams example_api Background)
     = Some (errorString ''post: i/o timeout'')"
  using failed_post_returns_prefixed_error
    [where post = post_failing and toParams = example_toParams
      and api = example_api and ctx = Background
      and response = zero_response and response' = zero_response
      and e = "''i/o timeout''" and e' = "''i/o timeout''"]
  by (simp add: post_failing_def)

text \<open>
  C9. A negotiation call, in any of its three outcomes, leaves the client its receiver
  points to as it was; a manager through whose embedded client the call is made is
  therefore unchanged too. (No statement of either function assigns to the client;
  \<^verbatim>\<open>post\<close> is handed the parameters, the response struct and the debug flag, never the
  client, and the logging helpers are recorded, not interpreted.)
\<close>

theorem negotiation_leaves_client_unchanged:
  "receiver (StartRTMContext post toParams api ctx) = api \<and>
   receiver (ConnectRTMContext post toParams api ctx) = api \<and>
   rtm\<lparr>Client := receiver (StartRTMContext post toParams (Client rtm) ctx)\<rparr> = rtm \<and>
   rtm\<lparr>Client := receiver (ConnectRTMContext post toParams (Client rtm) ctx)\<rparr> = rtm"
  by (simp add: StartRTMContext_def ConnectRTMContext_def split: prod.split option.split)

subsection \<open>Manager construction\<close>

text \<open>
  C5. A manager built by \<^verbatim>\<open>NewRTM\<close> or \<^verbatim>\<open>NewRTMWithOptions\<close> is not connected, has
  \<^verbatim>\<open>wasIntentional\<close> set, and its map of outstanding pings is empty (it has no key at all).
\<close>

theorem new_manager_initial_state:
  "isConnected (NewRTMWithOptions api options) = False \<and>
   wasIntentional (NewRTMWithOptions api options) = True \<and>
   pings (NewRTMWithOptions api options) = Map.empty \<and>
   dom (pings (NewRTMWithOptions api options)) = {} \<and>
   isConnected (NewRTM api) = False \<and>
   wasIntentional (NewRTM api) = True \<and>
   pings (NewRTM api) = Map.empty \<and>
   dom (pings (NewRTM api)) = {}"
  by (simp add: NewRTM_def NewRTMWithOptions_fields)

text \<open>
  C6. In a manager built by \<^verbatim>\<open>NewRTM\<close> or \<^verbatim>\<open>NewRTMWithOptions\<close> the channel of incoming
  events buffers exactly 50 values and the channel of outgoing messages exactly 20;
  both start open and empty.
\<close>

theorem new_manager_queue_capacities:
  "capacity (IncomingEvents (NewRTMWithOptions api options)) = 50 \<and>
   capacity (outgoingMessages (NewRTMWithOptions api options)) = 20 \<and>
   buffer (IncomingEvents (NewRTMWithOptions api options)) = [] \<and>
   buffer (outgoingMessages (NewRTMWithOptions api options)) = [] \<and>
   capacity (IncomingEvents (NewRTM api)) = 50 \<and>
   capacity (outgoingMessages (NewRTM api)) = 20"
  by (simp add: NewRTM_def NewRTMWithOptions_fields make_chan_def)

text \<open>
  C7. \<^verbatim>\<open>NewRTMWithOptions\<close> sets \<^verbatim>\<open>useRTMStart\<close> exactly when the options pointer is not
  nil and its \<^verbatim>\<open>UseRTMStart\<close> field is true; with nil options, or the field false, the
  flag stays false (compact negotiation).
\<close>

theorem useRTMStart_iff_option_set:
  "useRTMStart (NewRTMWithOptions api options)
     = (\<exists>opts. options = Some opts \<and> UseRTMStart opts)"
  by (cases options) (simp_all add: NewRTMWithOptions_def Let_def)

text \<open>
  C8. Both constructors build the identifier generator as \<^verbatim>\<open>NewSafeID(1)\<close>. With the
  generator of section 4.2 of the specification, the first identifier it yields is 1,
  the first \<open>n\<close> identifiers are 1, 2, ..., \<open>n\<close>, and they are strictly increasing.
\<close>

theorem new_manager_idGen_starts_at_one:
  "idGen (NewRTMWithOptions api options) = NewSafeID 1 \<and>
   idGen (NewRTM api) = NewSafeID 1 \<and>
   fst (Next (idGen (NewRTMWithOptions api options))) = 1 \<and>
   fst (Nexts n (idGen (NewRTMWithOptions api options))) = map int [1..<Suc n] \<and>
   sorted_wrt (<) (fst (Nexts n (idGen (NewRTMWithOptions api options))))"
proof -
  have g: "idGen (NewRTMWithOptions api options) = NewSafeID 1"
    by (rule NewRTMWithOptions_fields)
  have g': "idGen (NewRTM api) = NewSafeID 1"
    unfolding NewRTM_def by (rule NewRTMWithOptions_fields)
  have first: "fst (Next (NewSafeID 1)) = 1"
    by (simp add: Next_def NewSafeID_def)
  show ?thesis
    unfolding g g' using first Nexts_from_1 [of n] Nexts_increasing [of n "NewSafeID 1"]
    by (simp only: simp_thms)
qed

text \<open>
  C10. \<^verbatim>\<open>NewRTM()\<close> builds the same manager as \<^verbatim>\<open>NewRTMWithOptions(nil)\<close>: every field
  of the two is equal, and the full-negotiation flag of both is false.
\<close>

theorem NewRTM_is_NewRTMWithOptions_nil:
  "NewRTM api = NewRTMWithOptions api None \<and>
   useRTMStart (NewRTM api) = False"
  by (simp add: NewRTM_def NewRTMWithOptions_def)

end
